theory Spec2Isabelle
  imports Main
begin

section \<open>Python values, truthiness and exceptions\<close>

text \<open>
  The handler of \<^verbatim>\<open>lambda_function.py\<close> works on the values \<^verbatim>\<open>json.loads\<close> produces
  and on the items the table returns: \<^verbatim>\<open>None\<close>, booleans, integers, strings, lists and
  dictionaries with string keys. A dictionary is an association list in insertion order,
  read with \<open>map_of\<close>. A character is a code point below 256. Floating-point numbers and
  the table's \<^verbatim>\<open>Decimal\<close> values (the only values \<^verbatim>\<open>DecimalEncoder.default\<close> acts on)
  are outside this value universe.
\<close>

datatype pyval =
    PNone
  | PBool bool
  | PInt int
  | PStr string
  | PList "pyval list"
  | PDict "(string \<times> pyval) list"

type_synonym pydict = "(string \<times> pyval) list"

text \<open>An exception, with the text \<^verbatim>\<open>str(e)\<close> gives for it. The texts of the
  interpreter's own exceptions below are those of CPython 3.11 to 3.13; no property
  depends on their wording.\<close>

datatype exn =
    AttributeError string
  | TypeError string
  | KeyError string
  | ClientError string

fun str_exn :: "exn \<Rightarrow> string" where
  "str_exn (AttributeError m) = m"
| "str_exn (TypeError m) = m"
| "str_exn (KeyError m) = m"
| "str_exn (ClientError m) = m"

text \<open>Python's truth value, as \<^verbatim>\<open>not x\<close> and \<^verbatim>\<open>x or y\<close> test it.\<close>

fun truthy :: "pyval \<Rightarrow> bool" where
  "truthy PNone = False"
| "truthy (PBool b) = b"
| "truthy (PInt i) = (i \<noteq> 0)"
| "truthy (PStr s) = (s \<noteq> [])"
| "truthy (PList xs) = (xs \<noteq> [])"
| "truthy (PDict kvs) = (kvs \<noteq> [])"

fun type_name :: "pyval \<Rightarrow> string" where
  "type_name PNone = ''NoneType''"
| "type_name (PBool b) = ''bool''"
| "type_name (PInt i) = ''int''"
| "type_name (PStr s) = ''str''"
| "type_name (PList xs) = ''list''"
| "type_name (PDict kvs) = ''dict''"

definition quoted :: "string \<Rightarrow> string" where
  "quoted s = [CHR 0x27] @ s @ [CHR 0x27]"

text \<open>\<^verbatim>\<open>d.get(key)\<close> on a dictionary gives \<^verbatim>\<open>None\<close> for a missing key;
  \<^verbatim>\<open>body.get(key)\<close> raises when the body is no dictionary.\<close>

definition dict_get :: "pydict \<Rightarrow> string \<Rightarrow> pyval" where
  "dict_get kvs k = (case map_of kvs k of None \<Rightarrow> PNone | Some v \<Rightarrow> v)"

fun py_get :: "pyval \<Rightarrow> string \<Rightarrow> exn + pyval" where
  "py_get (PDict kvs) k = Inr (dict_get kvs k)"
| "py_get v k =
     Inl (AttributeError (quoted (type_name v) @ '' object has no attribute '' @ quoted ''get''))"

fun is_substring :: "string \<Rightarrow> string \<Rightarrow> bool" where
  "is_substring p [] = (p = [])"
| "is_substring p (c # cs) = (take (length p) (c # cs) = p \<or> is_substring p cs)"

text \<open>
  \<^verbatim>\<open>key in body\<close>: key membership for a dictionary, substring test for a string,
  element test for a list; the other values are no containers.
\<close>

fun py_contains :: "string \<Rightarrow> pyval \<Rightarrow> exn + bool" where
  "py_contains k (PDict kvs) = Inr (map_of kvs k \<noteq> None)"
| "py_contains k (PStr s) = Inr (is_substring k s)"
| "py_contains k (PList xs) = Inr (PStr k \<in> set xs)"
| "py_contains k v =
     Inl (TypeError (''argument of type '' @ quoted (type_name v) @ '' is not iterable''))"

text \<open>\<^verbatim>\<open>body[key]\<close> with a string key.\<close>

fun py_getitem :: "pyval \<Rightarrow> string \<Rightarrow> exn + pyval" where
  "py_getitem (PDict kvs) k =
     (case map_of kvs k of None \<Rightarrow> Inl (KeyError (quoted k)) | Some v \<Rightarrow> Inr v)"
| "py_getitem (PStr s) k =
     Inl (TypeError (''string indices must be integers, not '' @ quoted ''str''))"
| "py_getitem (PList xs) k =
     Inl (TypeError ''list indices must be integers or slices, not str'')"
| "py_getitem v k =
     Inl (TypeError (quoted (type_name v) @ '' object is not subscriptable''))"

section \<open>Serialisation: \<^verbatim>\<open>json.dumps\<close>\<close>

fun join :: "string \<Rightarrow> string list \<Rightarrow> string" where
  "join sep [] = []"
| "join sep [x] = x"
| "join sep (x # y # ys) = x @ sep @ join sep (y # ys)"

fun show_nat :: "nat \<Rightarrow> string" where
  "show_nat n =
     (if n < 10 then [char_of (48 + n)]
      else show_nat (n div 10) @ [char_of (48 + n mod 10)])"

declare show_nat.simps [simp del]

definition show_int :: "int \<Rightarrow> string" where
  "show_int i = (if i < 0 then CHR ''-'' # show_nat (nat (- i)) else show_nat (nat i))"

definition hex_digit :: "nat \<Rightarrow> char" where
  "hex_digit d = (if d < 10 then char_of (48 + d) else char_of (87 + d))"

text \<open>
  The default encoder writes ASCII only: the quote, the backslash and the control
  characters with a short escape have it, every other character outside the printable
  ASCII range becomes \<^verbatim>\<open>\u00XX\<close>.
\<close>

definition escape_char :: "char \<Rightarrow> string" where
  "escape_char c =
     (if c = CHR 0x22 then [CHR 0x5C, CHR 0x22]
      else if c = CHR 0x5C then [CHR 0x5C, CHR 0x5C]
      else if c = CHR 0x0A then [CHR 0x5C, CHR ''n'']
      else if c = CHR 0x0D then [CHR 0x5C, CHR ''r'']
      else if c = CHR 0x09 then [CHR 0x5C, CHR ''t'']
      else if c = CHR 0x08 then [CHR 0x5C, CHR ''b'']
      else if c = CHR 0x0C then [CHR 0x5C, CHR ''f'']
      else if 32 \<le> (of_char c :: nat) \<and> (of_char c :: nat) \<le> 126 then [c]
      else [CHR 0x5C, CHR ''u'', CHR ''0'', CHR ''0'',
            hex_digit ((of_char c :: nat) div 16), hex_digit ((of_char c :: nat) mod 16)])"

definition json_string :: "string \<Rightarrow> string" where
  "json_string s = [CHR 0x22] @ concat (map escape_char s) @ [CHR 0x22]"

fun json_dumps :: "pyval \<Rightarrow> string"
  and dumps_elems :: "pyval list \<Rightarrow> string list"
  and dumps_members :: "(string \<times> pyval) list \<Rightarrow> string list" where
  "json_dumps PNone = ''null''"
| "json_dumps (PBool b) = (if b then ''true'' else ''false'')"
| "json_dumps (PInt i) = show_int i"
| "json_dumps (PStr s) = json_string s"
| "json_dumps (PList xs) = ''['' @ join '', '' (dumps_elems xs) @ '']''"
| "json_dumps (PDict kvs) = ''{'' @ join '', '' (dumps_members kvs) @ ''}''"
| "dumps_elems [] = []"
| "dumps_elems (x # xs) = json_dumps x # dumps_elems xs"
| "dumps_members [] = []"
| "dumps_members ((k, v) # kvs) = (json_string k @ '': '' @ json_dumps v) # dumps_members kvs"

section \<open>The response envelope\<close>

record envelope =
  statusCode :: int
  headers :: "(string \<times> string) list"
  body :: string

definition response :: "int \<Rightarrow> pyval \<Rightarrow> envelope" where
  "response status_code body_value =
     \<lparr> statusCode = status_code,
       headers = [(''Content-Type'', ''application/json''),
                  (''Access-Control-Allow-Origin'', ''*'')],
       body = json_dumps body_value \<rparr>"

definition message :: "string \<Rightarrow> pyval" where
  "message m = PDict [(''message'', PStr m)]"

section \<open>The external collaborators\<close>

text \<open>
  The module calls three libraries that are no part of the repository: \<^verbatim>\<open>json.loads\<close>,
  \<^verbatim>\<open>uuid.uuid4\<close> and the five methods of the boto3 table handle \<^verbatim>\<open>table\<close>. They are
  parameters of the model, collected in one record over a state type \<open>'s\<close> (the world
  outside the handler: the contents of the table, the source of randomness). A call
  returns its outcome and the next state; \<open>Inl e\<close> is the exception \<open>e\<close> raised.

  \<^item> \<open>loads\<close>: \<^verbatim>\<open>json.loads(text)\<close>, \<open>None\<close> when it raises;
  \<^item> \<open>uuid4\<close>: \<^verbatim>\<open>str(uuid.uuid4())\<close>;
  \<^item> \<open>put_item\<close>: \<^verbatim>\<open>table.put_item(Item=item)\<close>;
  \<^item> \<open>get_item\<close>: \<^verbatim>\<open>table.get_item(Key={"id": key})\<close>, giving the entry \<^verbatim>\<open>Item\<close> of the
    result when it has one;
  \<^item> \<open>update_item\<close>: \<^verbatim>\<open>table.update_item\<close> with the key, the update expression and the
    expression attribute values (\<^verbatim>\<open>ReturnValues\<close> is always \<^verbatim>\<open>ALL_NEW\<close>), giving the entry
    \<^verbatim>\<open>Attributes\<close> of the result when it has one;
  \<^item> \<open>delete_item\<close>: \<^verbatim>\<open>table.delete_item(Key={"id": key})\<close>;
  \<^item> \<open>scan\<close>: \<^verbatim>\<open>table.scan\<close> with or without a filter expression, giving the entry
    \<^verbatim>\<open>Items\<close> of the result when it has one.
\<close>

datatype cond = AttrEq string pyval

record 's env =
  loads :: "string \<Rightarrow> pyval option"
  uuid4 :: "'s \<Rightarrow> string \<times> 's"
  put_item :: "pydict \<Rightarrow> 's \<Rightarrow> (exn + unit) \<times> 's"
  get_item :: "string \<Rightarrow> 's \<Rightarrow> (exn + pydict option) \<times> 's"
  update_item :: "string \<Rightarrow> string \<Rightarrow> pydict \<Rightarrow> 's \<Rightarrow> (exn + pydict option) \<times> 's"
  delete_item :: "string \<Rightarrow> 's \<Rightarrow> (exn + unit) \<times> 's"
  scan :: "cond option \<Rightarrow> 's \<Rightarrow> (exn + pydict list option) \<times> 's"

section \<open>The task operations\<close>

text \<open>
  Each operation takes the collaborators and the state and returns the envelope, or the
  exception that leaves the function, with the next state. The \<^verbatim>\<open>print\<close> calls are logging
  and left out.
\<close>

definition msg_required :: string where
  "msg_required = ''Campos 'title' e 'date' s'' @ [CHR 0xE3] @ ''o obrigat'' @ [CHR 0xF3] @ ''rios.''"

definition msg_not_found :: string where
  "msg_not_found = ''Tarefa n'' @ [CHR 0xE3] @ ''o encontrada.''"

definition msg_nothing :: string where
  "msg_nothing = ''Nenhum campo para atualizar.''"

definition msg_date_required :: string where
  "msg_date_required =
     ''Par'' @ [CHR 0xE2] @ ''metro 'date' '' @ [CHR 0xE9] @ '' obrigat'' @ [CHR 0xF3]
       @ ''rio. Ex: /tasks?date=2025-12-04''"

definition msg_id_required :: string where
  "msg_id_required =
     ''Par'' @ [CHR 0xE2] @ ''metro 'id' '' @ [CHR 0xE9] @ '' obrigat'' @ [CHR 0xF3] @ ''rio.''"

definition msg_route :: string where
  "msg_route = ''Rota n'' @ [CHR 0xE3] @ ''o encontrada.''"

definition create_task :: "'s env \<Rightarrow> pyval \<Rightarrow> 's \<Rightarrow> (exn + envelope) \<times> 's" where
  "create_task E body_value s =
     (case uuid4 E s of (task_id, s1) \<Rightarrow>
      (case py_get body_value ''title'' of Inl e \<Rightarrow> (Inl e, s1) | Inr title \<Rightarrow>
      (case py_get body_value ''description'' of Inl e \<Rightarrow> (Inl e, s1) | Inr description \<Rightarrow>
      (case py_get body_value ''date'' of Inl e \<Rightarrow> (Inl e, s1) | Inr date \<Rightarrow>
         if \<not> truthy title \<or> \<not> truthy date then (Inr (response 400 (message msg_required)), s1)
         else
           let item = [(''id'', PStr task_id),
                       (''title'', title),
                       (''description'', if truthy description then description else PStr []),
                       (''date'', date)]
           in (case put_item E item s1 of
                 (Inl e, s2) \<Rightarrow> (Inl e, s2)
               | (Inr u, s2) \<Rightarrow> (Inr (response 201 (PDict item)), s2))))))"

definition get_task :: "'s env \<Rightarrow> string \<Rightarrow> 's \<Rightarrow> (exn + envelope) \<times> 's" where
  "get_task E task_id s =
     (case get_item E task_id s of
        (Inl e, s1) \<Rightarrow> (Inl e, s1)
      | (Inr item, s1) \<Rightarrow>
          (case item of
             None \<Rightarrow> (Inr (response 404 (message msg_not_found)), s1)
           | Some it \<Rightarrow>
               if it = [] then (Inr (response 404 (message msg_not_found)), s1)
               else (Inr (response 200 (PDict it)), s1)))"

text \<open>
  One of the three \<^verbatim>\<open>if key in body\<close> blocks of \<^verbatim>\<open>update_task\<close>: it appends to
  \<^verbatim>\<open>update_expression_parts\<close> and sets the placeholder in
  \<^verbatim>\<open>expression_attribute_values\<close>.
\<close>

definition add_field ::
  "pyval \<Rightarrow> string \<Rightarrow> string \<Rightarrow> string \<Rightarrow> string list \<times> pydict \<Rightarrow> exn + string list \<times> pydict" where
  "add_field body_value k part ph acc =
     (case py_contains k body_value of
        Inl e \<Rightarrow> Inl e
      | Inr present \<Rightarrow>
          if present then
            (case py_getitem body_value k of
               Inl e \<Rightarrow> Inl e
             | Inr v \<Rightarrow> Inr (fst acc @ [part], snd acc @ [(ph, v)]))
          else Inr acc)"

definition update_fields :: "pyval \<Rightarrow> exn + string list \<times> pydict" where
  "update_fields body_value =
     (case add_field body_value ''title'' ''title = :t'' '':t'' ([], []) of
        Inl e \<Rightarrow> Inl e
      | Inr a1 \<Rightarrow>
     (case add_field body_value ''description'' ''description = :d'' '':d'' a1 of
        Inl e \<Rightarrow> Inl e
      | Inr a2 \<Rightarrow> add_field body_value ''date'' ''date = :dt'' '':dt'' a2))"

definition update_task :: "'s env \<Rightarrow> string \<Rightarrow> pyval \<Rightarrow> 's \<Rightarrow> (exn + envelope) \<times> 's" where
  "update_task E task_id body_value s =
     (case update_fields body_value of
        Inl e \<Rightarrow> (Inl e, s)
      | Inr (update_expression_parts, expression_attribute_values) \<Rightarrow>
          if update_expression_parts = [] then (Inr (response 400 (message msg_nothing)), s)
          else
            let update_expression = ''SET '' @ join '', '' update_expression_parts
            in (case update_item E task_id update_expression expression_attribute_values s of
                  (Inl e, s1) \<Rightarrow>
                    (Inr (response 500 (message (''Erro ao atualizar: '' @ str_exn e))), s1)
                | (Inr attributes, s1) \<Rightarrow>
                    (Inr (response 200 (case attributes of None \<Rightarrow> PNone | Some a \<Rightarrow> PDict a)),
                     s1)))"

definition delete_task :: "'s env \<Rightarrow> string \<Rightarrow> 's \<Rightarrow> (exn + envelope) \<times> 's" where
  "delete_task E task_id s =
     (case get_item E task_id s of
        (Inl e, s1) \<Rightarrow> (Inl e, s1)
      | (Inr None, s1) \<Rightarrow> (Inr (response 404 (message msg_not_found)), s1)
      | (Inr (Some it), s1) \<Rightarrow>
          (case delete_item E task_id s1 of
             (Inl e, s2) \<Rightarrow> (Inl e, s2)
           | (Inr u, s2) \<Rightarrow> (Inr (response 204 (PDict [])), s2)))"

definition get_tasks_by_date ::
  "'s env \<Rightarrow> (string \<times> string) list \<Rightarrow> 's \<Rightarrow> (exn + envelope) \<times> 's" where
  "get_tasks_by_date E query_params s =
     (let date = (if query_params \<noteq> [] then map_of query_params ''date'' else None)
      in case date of
           None \<Rightarrow> (Inr (response 400 (message msg_date_required)), s)
         | Some d \<Rightarrow>
             if d = [] then (Inr (response 400 (message msg_date_required)), s)
             else
               (case scan E (Some (AttrEq ''date'' (PStr d))) s of
                  (Inl e, s1) \<Rightarrow> (Inl e, s1)
                | (Inr result, s1) \<Rightarrow>
                    (Inr (response 200
                            (PList (map PDict (case result of None \<Rightarrow> [] | Some its \<Rightarrow> its)))),
                     s1)))"

section \<open>The router\<close>

text \<open>
  The event of an HTTP API route: the route key, the path and query parameters
  (dictionaries of strings, or absent) and the body text (or absent).
\<close>

record event =
  routeKey :: "string option"
  pathParameters :: "(string \<times> string) list option"
  queryStringParameters :: "(string \<times> string) list option"
  event_body :: "string option"

text \<open>Lines 127 to 132: the body is parsed when present and not empty, and is \<^verbatim>\<open>{}\<close>
  when it is absent, empty or not JSON.\<close>

definition parse_body :: "'s env \<Rightarrow> event \<Rightarrow> pyval" where
  "parse_body E ev =
     (case event_body ev of
        None \<Rightarrow> PDict []
      | Some b \<Rightarrow>
          if b = [] then PDict []
          else (case loads E b of None \<Rightarrow> PDict [] | Some v \<Rightarrow> v))"

text \<open>\<^verbatim>\<open>path_params.get("id")\<close> followed by \<^verbatim>\<open>if not task_id\<close>, as the three routes
  with an id do it.\<close>

definition with_id ::
  "(string \<times> string) list \<Rightarrow> (string \<Rightarrow> 's \<Rightarrow> (exn + envelope) \<times> 's) \<Rightarrow> 's \<Rightarrow> (exn + envelope) \<times> 's" where
  "with_id path_params operation s =
     (case map_of path_params ''id'' of
        None \<Rightarrow> (Inr (response 400 (message msg_id_required)), s)
      | Some task_id \<Rightarrow>
          if task_id = [] then (Inr (response 400 (message msg_id_required)), s)
          else operation task_id s)"

text \<open>The body of the \<^verbatim>\<open>try\<close> block of \<^verbatim>\<open>lambda_handler\<close>.\<close>

definition dispatch :: "'s env \<Rightarrow> event \<Rightarrow> 's \<Rightarrow> (exn + envelope) \<times> 's" where
  "dispatch E ev s =
     (let route_key = routeKey ev;
          path_params = (case pathParameters ev of None \<Rightarrow> [] | Some p \<Rightarrow> p);
          query_params = (case queryStringParameters ev of None \<Rightarrow> [] | Some q \<Rightarrow> q);
          body_value = parse_body E ev
      in if route_key = Some ''POST /tasks'' then create_task E body_value s
         else if route_key = Some ''GET /tasks/{id}'' then with_id path_params (get_task E) s
         else if route_key = Some ''PUT /tasks/{id}'' then
           with_id path_params (\<lambda>task_id. update_task E task_id body_value) s
         else if route_key = Some ''DELETE /tasks/{id}'' then
           with_id path_params (delete_task E) s
         else if route_key = Some ''GET /tasks'' then
           (if map_of query_params ''date'' \<noteq> None then get_tasks_by_date E query_params s
            else
              (case scan E None s of
                 (Inl e, s1) \<Rightarrow> (Inl e, s1)
               | (Inr result, s1) \<Rightarrow>
                   (Inr (response 200
                           (PList (map PDict (case result of None \<Rightarrow> [] | Some its \<Rightarrow> its)))),
                    s1)))
         else (Inr (response 404 (message msg_route)), s))"

definition lambda_handler :: "'s env \<Rightarrow> event \<Rightarrow> 's \<Rightarrow> envelope \<times> 's" where
  "lambda_handler E ev s =
     (case dispatch E ev s of
        (Inl e, s1) \<Rightarrow> (response 500 (message (''Erro interno: '' @ str_exn e)), s1)
      | (Inr r, s1) \<Rightarrow> (r, s1))"

section \<open>A reference record store\<close>

text \<open>
  Modelled from the spec: the record store behind the table handle is an external
  service, absent from the repository; this is the contract of section 4.1 of the
  specification over a list of items keyed by their attribute \<^verbatim>\<open>id\<close>. \<open>get\<close> gives the
  item with the key or none; \<open>put\<close> inserts or replaces by key; \<open>updateFields\<close> applies
  only the given assignments to the item with the key and fails when there is none;
  \<open>delete\<close> removes the item with the key; a scan gives every item, or those an
  equality filter holds for. None of them fails otherwise. Identifiers are minted from
  a counter, so no two are equal.
\<close>

record mem =
  items :: "pydict list"
  minted :: nat

definition has_id :: "string \<Rightarrow> pydict \<Rightarrow> bool" where
  "has_id k it = (map_of it ''id'' = Some (PStr k))"

fun dict_set :: "string \<Rightarrow> pyval \<Rightarrow> pydict \<Rightarrow> pydict" where
  "dict_set k v [] = [(k, v)]"
| "dict_set k v ((k', v') # kvs) =
     (if k' = k then (k, v) # kvs else (k', v') # dict_set k v kvs)"

text \<open>\<^verbatim>\<open>s.split(sep)\<close> for a separator that is not empty; \<open>acc\<close> holds the current piece,
  reversed.\<close>

fun split_on :: "string \<Rightarrow> string \<Rightarrow> string \<Rightarrow> string list" where
  "split_on sep acc [] = [rev acc]"
| "split_on sep acc (c # cs) =
     (if sep \<noteq> [] \<and> take (length sep) (c # cs) = sep
      then rev acc # split_on sep [] (drop (length sep - 1) cs)
      else split_on sep (c # acc) cs)"

definition parse_clause :: "string \<Rightarrow> (string \<times> string) option" where
  "parse_clause c = (case split_on '' = '' [] c of [a, ph] \<Rightarrow> Some (a, ph) | _ \<Rightarrow> None)"

text \<open>An update expression \<^verbatim>\<open>SET a = :x, b = :y\<close> as its assignments.\<close>

definition parse_set :: "string \<Rightarrow> (string \<times> string) list option" where
  "parse_set expr =
     (if take 4 expr = ''SET '' then those (map parse_clause (split_on '', '' [] (drop 4 expr)))
      else None)"

definition bind_values :: "(string \<times> string) list \<Rightarrow> pydict \<Rightarrow> pydict option" where
  "bind_values assigns vals =
     those (map (\<lambda>(a, ph). map_option (Pair a) (map_of vals ph)) assigns)"

definition mem_uuid4 :: "mem \<Rightarrow> string \<times> mem" where
  "mem_uuid4 s = (''task-'' @ show_nat (minted s), s\<lparr>minted := Suc (minted s)\<rparr>)"

definition mem_put_item :: "pydict \<Rightarrow> mem \<Rightarrow> (exn + unit) \<times> mem" where
  "mem_put_item it s =
     (case map_of it ''id'' of
        Some (PStr k) \<Rightarrow>
          (Inr (), s\<lparr>items := filter (\<lambda>x. \<not> has_id k x) (items s) @ [it]\<rparr>)
      | _ \<Rightarrow> (Inl (ClientError ''the item has no string key id''), s))"

definition mem_get_item :: "string \<Rightarrow> mem \<Rightarrow> (exn + pydict option) \<times> mem" where
  "mem_get_item k s = (Inr (find (has_id k) (items s)), s)"

definition mem_update_item ::
  "string \<Rightarrow> string \<Rightarrow> pydict \<Rightarrow> mem \<Rightarrow> (exn + pydict option) \<times> mem" where
  "mem_update_item k expr vals s =
     (case find (has_id k) (items s) of
        None \<Rightarrow> (Inl (ClientError ''no item has the key''), s)
      | Some it \<Rightarrow>
          (case parse_set expr of
             None \<Rightarrow> (Inl (ClientError ''the update expression is not valid''), s)
           | Some assigns \<Rightarrow>
               (case bind_values assigns vals of
                  None \<Rightarrow> (Inl (ClientError ''an expression attribute value is not given''), s)
                | Some avs \<Rightarrow>
                    let it' = fold (\<lambda>(a, v). dict_set a v) avs it
                    in (Inr (Some it'),
                        s\<lparr>items := map (\<lambda>x. if has_id k x then it' else x) (items s)\<rparr>))))"

definition mem_delete_item :: "string \<Rightarrow> mem \<Rightarrow> (exn + unit) \<times> mem" where
  "mem_delete_item k s = (Inr (), s\<lparr>items := filter (\<lambda>x. \<not> has_id k x) (items s)\<rparr>)"

fun holds :: "cond \<Rightarrow> pydict \<Rightarrow> bool" where
  "holds (AttrEq a v) it = (map_of it a = Some v)"

definition mem_scan :: "cond option \<Rightarrow> mem \<Rightarrow> (exn + pydict list option) \<times> mem" where
  "mem_scan c s =
     (Inr (Some (case c of None \<Rightarrow> items s | Some f \<Rightarrow> filter (holds f) (items s))), s)"

text \<open>The reference collaborators; \<^verbatim>\<open>json.loads\<close> is given by a table of texts and
  their values, every other text being malformed.\<close>

definition mem_env :: "(string \<times> pyval) list \<Rightarrow> mem env" where
  "mem_env parses =
     \<lparr> loads = map_of parses,
       uuid4 = mem_uuid4,
       put_item = mem_put_item,
       get_item = mem_get_item,
       update_item = mem_update_item,
       delete_item = mem_delete_item,
       scan = mem_scan \<rparr>"

text \<open>The assignments of an update, as attribute and value: the fields among \<^verbatim>\<open>title\<close>,
  \<^verbatim>\<open>description\<close> and \<^verbatim>\<open>date\<close> that are keys of a body, with the values the body gives
  them.\<close>

definition supplied :: "pydict \<Rightarrow> pydict" where
  "supplied kvs =
     (case map_of kvs ''title'' of None \<Rightarrow> [] | Some v \<Rightarrow> [(''title'', v)])
       @ (case map_of kvs ''description'' of None \<Rightarrow> [] | Some v \<Rightarrow> [(''description'', v)])
       @ (case map_of kvs ''date'' of None \<Rightarrow> [] | Some v \<Rightarrow> [(''date'', v)])"

section \<open>Properties of the serialiser and the response builder\<close>






section \<open>Properties of \<^verbatim>\<open>create_task\<close>\<close>

lemma map_of_filter_key:
  "map_of (filter (\<lambda>p. fst p \<noteq> k) kvs) k' = (if k' = k then None else map_of kvs k')"
  by (induction kvs) auto

lemma dict_get_drop_same: "dict_get (filter (\<lambda>p. fst p \<noteq> k) kvs) k = PNone"
  by (simp add: dict_get_def map_of_filter_key)



text \<open>
  Claim C10. Validation and defaulting in \<^verbatim>\<open>create_task\<close> go by truth value, not by
  presence. The empty string, 0, \<^verbatim>\<open>false\<close> and \<^verbatim>\<open>null\<close> have no truth value; a \<^verbatim>\<open>title\<close>
  or \<^verbatim>\<open>date\<close> key with a value of no truth value gives the status 400, the very outcome
  of the same body without the key; and a \<^verbatim>\<open>description\<close> key with a value of no truth
  value gives a record whose description is the empty string, not the value supplied.
\<close>

theorem create_task_truthiness:
  assumes "uuid4 E s = (task_id, s1)"
  shows "(\<forall>v \<in> {PStr [], PInt 0, PBool False, PNone}. \<not> truthy v)
       \<and> (\<forall>k v. (k = ''title'' \<or> k = ''date'') \<and> map_of kvs k = Some v \<and> \<not> truthy v \<longrightarrow>
             create_task E (PDict kvs) s = (Inr (response 400 (message msg_required)), s1)
           \<and> create_task E (PDict kvs) s = create_task E (PDict (filter (\<lambda>p. fst p \<noteq> k) kvs)) s)
       \<and> (\<forall>d s2. truthy (dict_get kvs ''title'') \<and> truthy (dict_get kvs ''date'')
             \<and> map_of kvs ''description'' = Some d \<and> \<not> truthy d
             \<and> put_item E [(''id'', PStr task_id), (''title'', dict_get kvs ''title''),
                            (''description'', PStr []), (''date'', dict_get kvs ''date'')] s1
                 = (Inr (), s2) \<longrightarrow>
             create_task E (PDict kvs) s
               = (Inr (response 201 (PDict [(''id'', PStr task_id),
                                            (''title'', dict_get kvs ''title''),
                                            (''description'', PStr []),
                                            (''date'', dict_get kvs ''date'')])), s2))"
proof (intro conjI allI impI)
  show "\<forall>v \<in> {PStr [], PInt 0, PBool False, PNone}. \<not> truthy v" by simp
next
  fix k v
  assume h: "(k = ''title'' \<or> k = ''date'') \<and> map_of kvs k = Some v \<and> \<not> truthy v"
  then have f: "\<not> truthy (dict_get kvs k)" by (simp add: dict_get_def)
  with h assms
  show a: "create_task E (PDict kvs) s = (Inr (response 400 (message msg_required)), s1)"
    by (auto simp: create_task_def)
  from h have "\<not> truthy (dict_get (filter (\<lambda>p. fst p \<noteq> k) kvs) k)"
    by (simp add: dict_get_drop_same)
  with h assms have "create_task E (PDict (filter (\<lambda>p. fst p \<noteq> k) kvs)) s
      = (Inr (response 400 (message msg_required)), s1)"
    by (auto simp: create_task_def)
  with a
  show "create_task E (PDict kvs) s = create_task E (PDict (filter (\<lambda>p. fst p \<noteq> k) kvs)) s"
    by simp
next
  fix d s2
  assume "truthy (dict_get kvs ''title'') \<and> truthy (dict_get kvs ''date'')
             \<and> map_of kvs ''description'' = Some d \<and> \<not> truthy d
             \<and> put_item E [(''id'', PStr task_id), (''title'', dict_get kvs ''title''),
                            (''description'', PStr []), (''date'', dict_get kvs ''date'')] s1
                 = (Inr (), s2)"
  with assms
  show "create_task E (PDict kvs) s
          = (Inr (response 201 (PDict [(''id'', PStr task_id),
                                       (''title'', dict_get kvs ''title''),
                                       (''description'', PStr []),
                                       (''date'', dict_get kvs ''date'')])), s2)"
    by (simp add: create_task_def dict_get_def)
qed

theorem create_task_truthiness_witness:
  "create_task (mem_env []) (PDict [(''title'', PInt 0), (''date'', PStr ''2025-12-04'')])
     \<lparr>items = [], minted = 0\<rparr>
   = (Inr (response 400 (message msg_required)), \<lparr>items = [], minted = 1\<rparr>)
   \<and> create_task (mem_env [])
       (PDict [(''title'', PStr ''T''), (''description'', PNone), (''date'', PStr ''D'')])
       \<lparr>items = [], minted = 0\<rparr>
     = (Inr (response 201 (PDict [(''id'', PStr ''task-0''), (''title'', PStr ''T''),
                                  (''description'', PStr []), (''date'', PStr ''D'')])),
        \<lparr>items = [[(''id'', PStr ''task-0''), (''title'', PStr ''T''),
                   (''description'', PStr []), (''date'', PStr ''D'')]],
         minted = 1\<rparr>)"
proof -
  let ?s = "\<lparr>items = [], minted = 0\<rparr>"
  let ?s1 = "\<lparr>items = [], minted = 1\<rparr>"
  let ?kvs = "[(''title'', PInt 0), (''date'', PStr ''2025-12-04'')]"
  let ?kvs2 = "[(''title'', PStr ''T''), (''description'', PNone), (''date'', PStr ''D'')]"
  let ?item = "[(''id'', PStr ''task-0''), (''title'', PStr ''T''),
                (''description'', PStr []), (''date'', PStr ''D'')]"
  have u: "uuid4 (mem_env []) ?s = (''task-0'', ?s1)"
    by code_simp
  have k: "(''title'' = ''title'' \<or> ''title'' = ''date'')
             \<and> map_of ?kvs ''title'' = Some (PInt 0) \<and> \<not> truthy (PInt 0)"
    by simp
  from create_task_truthiness [OF u, of ?kvs] k
  have a: "create_task (mem_env []) (PDict ?kvs) ?s
             = (Inr (response 400 (message msg_required)), ?s1)"
    by blast
  have d: "truthy (dict_get ?kvs2 ''title'') \<and> truthy (dict_get ?kvs2 ''date'')
             \<and> map_of ?kvs2 ''description'' = Some PNone \<and> \<not> truthy PNone
             \<and> put_item (mem_env []) [(''id'', PStr ''task-0''), (''title'', dict_get ?kvs2 ''title''),
                            (''description'', PStr []), (''date'', dict_get ?kvs2 ''date'')] ?s1
                 = (Inr (), \<lparr>items = [?item], minted = 1\<rparr>)"
    by (simp add: dict_get_def mem_env_def mem_put_item_def)
  from create_task_truthiness [OF u, of ?kvs2] d
  have "create_task (mem_env []) (PDict ?kvs2) ?s
          = (Inr (response 201 (PDict [(''id'', PStr ''task-0''),
                                       (''title'', dict_get ?kvs2 ''title''),
                                       (''description'', PStr []),
                                       (''date'', dict_get ?kvs2 ''date'')])),
             \<lparr>items = [?item], minted = 1\<rparr>)"
    by blast
  then have b: "create_task (mem_env []) (PDict ?kvs2) ?s
          = (Inr (response 201 (PDict ?item)), \<lparr>items = [?item], minted = 1\<rparr>)"
    by (simp add: dict_get_def)
  from a b show ?thesis by simp
qed

section \<open>Properties of \<^verbatim>\<open>get_task\<close> and \<^verbatim>\<open>delete_task\<close>\<close>

lemma find_has_id_None: "find (has_id k) xs = None \<longleftrightarrow> \<not> (\<exists>it \<in> set xs. has_id k it)"
  by (auto simp: find_None_iff)

lemma find_has_id_Some: "find (has_id k) xs = Some it \<Longrightarrow> it \<in> set xs \<and> has_id k it \<and> it \<noteq> []"
  by (auto simp: find_Some_iff has_id_def)

lemma mem_get_task:
  "get_task (mem_env P) k m =
     (case find (has_id k) (items m) of
        None \<Rightarrow> (Inr (response 404 (message msg_not_found)), m)
      | Some it \<Rightarrow> (Inr (response 200 (PDict it)), m))"
  by (auto simp: get_task_def mem_env_def mem_get_item_def split: option.splits
           dest: find_has_id_Some)

lemma mem_delete_task:
  "delete_task (mem_env P) k m =
     (case find (has_id k) (items m) of
        None \<Rightarrow> (Inr (response 404 (message msg_not_found)), m)
      | Some it \<Rightarrow> (Inr (response 204 (PDict [])),
                    m\<lparr>items := filter (\<lambda>x. \<not> has_id k x) (items m)\<rparr>))"
  by (simp add: delete_task_def mem_env_def mem_get_item_def mem_delete_item_def
           split: option.splits)

lemma statusCode_response: "statusCode (response c v) = c"
  by (simp add: response_def)

text \<open>
  Claim C7. Whatever the table answers, an envelope \<^verbatim>\<open>get_task\<close> returns has the status
  200 or 404. On the reference store it returns 404 with the not-found message when no
  item of the store has the id, and 200 with the stored item when one has; the store is
  left as it was.
\<close>

theorem get_task_spec:
  "(\<forall>r s'. get_task E task_id s = (Inr r, s') \<longrightarrow> statusCode r = 200 \<or> statusCode r = 404)
   \<and> (\<not> (\<exists>it \<in> set (items m). has_id task_id it) \<longrightarrow>
        get_task (mem_env P) task_id m = (Inr (response 404 (message msg_not_found)), m))
   \<and> ((\<exists>it \<in> set (items m). has_id task_id it) \<longrightarrow>
        (\<exists>it \<in> set (items m). has_id task_id it
           \<and> get_task (mem_env P) task_id m = (Inr (response 200 (PDict it)), m)))"
proof (intro conjI allI impI)
  fix r s'
  assume "get_task E task_id s = (Inr r, s')"
  then show "statusCode r = 200 \<or> statusCode r = 404"
    by (auto simp: get_task_def statusCode_response split: prod.splits sum.splits option.splits if_splits)
next
  assume "\<not> (\<exists>it \<in> set (items m). has_id task_id it)"
  then have "find (has_id task_id) (items m) = None"
    by (simp add: find_has_id_None)
  then show "get_task (mem_env P) task_id m = (Inr (response 404 (message msg_not_found)), m)"
    by (simp add: mem_get_task)
next
  assume "\<exists>it \<in> set (items m). has_id task_id it"
  then obtain it where f: "find (has_id task_id) (items m) = Some it"
    using find_has_id_None [of task_id "items m"] by (cases "find (has_id task_id) (items m)") auto
  then have "it \<in> set (items m) \<and> has_id task_id it"
    by (simp add: find_has_id_Some)
  moreover from f have "get_task (mem_env P) task_id m = (Inr (response 200 (PDict it)), m)"
    by (simp add: mem_get_task)
  ultimately show "\<exists>it \<in> set (items m). has_id task_id it
           \<and> get_task (mem_env P) task_id m = (Inr (response 200 (PDict it)), m)"
    by blast
qed

theorem get_task_spec_witness:
  "get_task (mem_env []) ''a''
      \<lparr>items = [[(''id'', PStr ''a''), (''title'', PStr ''T'')]], minted = 0\<rparr>
     = (Inr (response 200 (PDict [(''id'', PStr ''a''), (''title'', PStr ''T'')])),
        \<lparr>items = [[(''id'', PStr ''a''), (''title'', PStr ''T'')]], minted = 0\<rparr>)
   \<and> get_task (mem_env []) ''b''
      \<lparr>items = [[(''id'', PStr ''a''), (''title'', PStr ''T'')]], minted = 0\<rparr>
     = (Inr (response 404 (message msg_not_found)),
        \<lparr>items = [[(''id'', PStr ''a''), (''title'', PStr ''T'')]], minted = 0\<rparr>)"
proof -
  let ?m = "\<lparr>items = [[(''id'', PStr ''a''), (''title'', PStr ''T'')]], minted = 0\<rparr>"
  note present = get_task_spec [where m = ?m and task_id = "''a''" and P = "[]",
      THEN conjunct2, THEN conjunct2]
  note absent = get_task_spec [where m = ?m and task_id = "''b''" and P = "[]",
      THEN conjunct2, THEN conjunct1]
  from present
  have c: "get_task (mem_env []) ''a'' ?m
      = (Inr (response 200 (PDict [(''id'', PStr ''a''), (''title'', PStr ''T'')])), ?m)"
    by (simp add: has_id_def)
  from absent
  have d: "get_task (mem_env []) ''b'' ?m = (Inr (response 404 (message msg_not_found)), ?m)"
    by (simp add: has_id_def)
  from c d show ?thesis by (rule conjI)
qed

text \<open>
  Claim C4. \<^verbatim>\<open>delete_task\<close> asks the table for the item first and returns 404 when the
  answer has none. On the reference store: without an item of that id the result is 404
  and the store is unchanged; with one, the items of that id are removed, every other
  item stays, and the result is 204. After the call, in both cases, \<^verbatim>\<open>get_task\<close> on the
  same id returns 404 and so does a second \<^verbatim>\<open>delete_task\<close>.
\<close>

theorem delete_task_spec:
  "(\<forall>s1. get_item E k s = (Inr None, s1) \<longrightarrow>
       delete_task E k s = (Inr (response 404 (message msg_not_found)), s1))
   \<and> (\<not> (\<exists>it \<in> set (items m). has_id k it) \<longrightarrow>
        delete_task (mem_env P) k m = (Inr (response 404 (message msg_not_found)), m))
   \<and> ((\<exists>it \<in> set (items m). has_id k it) \<longrightarrow>
        delete_task (mem_env P) k m
          = (Inr (response 204 (PDict [])), m\<lparr>items := filter (\<lambda>x. \<not> has_id k x) (items m)\<rparr>))
   \<and> (\<forall>r m'. delete_task (mem_env P) k m = (r, m') \<longrightarrow>
          get_task (mem_env P) k m' = (Inr (response 404 (message msg_not_found)), m')
        \<and> delete_task (mem_env P) k m' = (Inr (response 404 (message msg_not_found)), m'))"
proof (intro conjI allI impI)
  fix s1 assume "get_item E k s = (Inr None, s1)"
  then show "delete_task E k s = (Inr (response 404 (message msg_not_found)), s1)"
    by (simp add: delete_task_def)
next
  assume "\<not> (\<exists>it \<in> set (items m). has_id k it)"
  then have "find (has_id k) (items m) = None" by (simp add: find_has_id_None)
  then show "delete_task (mem_env P) k m = (Inr (response 404 (message msg_not_found)), m)"
    by (simp add: mem_delete_task)
next
  assume "\<exists>it \<in> set (items m). has_id k it"
  then obtain it where "find (has_id k) (items m) = Some it"
    using find_has_id_None [of k "items m"] by (cases "find (has_id k) (items m)") auto
  then show "delete_task (mem_env P) k m
          = (Inr (response 204 (PDict [])), m\<lparr>items := filter (\<lambda>x. \<not> has_id k x) (items m)\<rparr>)"
    by (simp add: mem_delete_task)
next
  fix r m' assume d: "delete_task (mem_env P) k m = (r, m')"
  have "find (has_id k) (items m') = None"
  proof (cases "find (has_id k) (items m)")
    case None
    with d have "m' = m" by (simp add: mem_delete_task)
    with None show ?thesis by simp
  next
    case (Some it)
    with d have "items m' = filter (\<lambda>x. \<not> has_id k x) (items m)"
      by (auto simp: mem_delete_task)
    then show ?thesis by (simp add: find_has_id_None)
  qed
  then show "get_task (mem_env P) k m' = (Inr (response 404 (message msg_not_found)), m')"
    and "delete_task (mem_env P) k m' = (Inr (response 404 (message msg_not_found)), m')"
    by (simp_all add: mem_get_task mem_delete_task)
qed

theorem delete_task_spec_witness:
  "delete_task (mem_env []) ''a''
      \<lparr>items = [[(''id'', PStr ''a'')], [(''id'', PStr ''b'')]], minted = 0\<rparr>
     = (Inr (response 204 (PDict [])), \<lparr>items = [[(''id'', PStr ''b'')]], minted = 0\<rparr>)
   \<and> get_task (mem_env []) ''a'' \<lparr>items = [[(''id'', PStr ''b'')]], minted = 0\<rparr>
     = (Inr (response 404 (message msg_not_found)), \<lparr>items = [[(''id'', PStr ''b'')]], minted = 0\<rparr>)
   \<and> delete_task (mem_env []) ''a'' \<lparr>items = [[(''id'', PStr ''b'')]], minted = 0\<rparr>
     = (Inr (response 404 (message msg_not_found)), \<lparr>items = [[(''id'', PStr ''b'')]], minted = 0\<rparr>)"
proof -
  let ?m = "\<lparr>items = [[(''id'', PStr ''a'')], [(''id'', PStr ''b'')]], minted = 0\<rparr>"
  let ?m' = "\<lparr>items = [[(''id'', PStr ''b'')]], minted = 0\<rparr>"
  note present = delete_task_spec [where m = ?m and k = "''a''" and P = "[]",
      THEN conjunct2, THEN conjunct2, THEN conjunct1]
  note after = delete_task_spec [where m = ?m and k = "''a''" and P = "[]",
      THEN conjunct2, THEN conjunct2, THEN conjunct2, rule_format]
  from present
  have d: "delete_task (mem_env []) ''a'' ?m = (Inr (response 204 (PDict [])), ?m')"
    by (simp add: has_id_def)
  from after [OF d] d show ?thesis by simp
qed

section \<open>Properties of the listing route\<close>

lemma holds_AttrEq: "holds (AttrEq a v) = (\<lambda>it. map_of it a = Some v)"
  by (rule ext) simp

lemma mem_scan_all: "scan (mem_env P) None m = (Inr (Some (items m)), m)"
  by (simp add: mem_env_def mem_scan_def)

lemma mem_scan_date:
  "scan (mem_env P) (Some (AttrEq ''date'' (PStr d))) m
     = (Inr (Some (filter (\<lambda>it. map_of it ''date'' = Some (PStr d)) (items m))), m)"
  by (simp add: mem_env_def mem_scan_def holds_AttrEq)

text \<open>
  Claim C5. On the route \<^verbatim>\<open>GET /tasks\<close> over the reference store: without a \<^verbatim>\<open>date\<close> key
  in the query parameters the handler returns 200 with every stored item; with a \<^verbatim>\<open>date\<close>
  that is not empty it returns 200 with exactly the stored items whose attribute
  \<^verbatim>\<open>date\<close> is that string; with a \<^verbatim>\<open>date\<close> key whose value is empty it returns 400.
\<close>

theorem list_tasks_spec:
  assumes "routeKey ev = Some ''GET /tasks''"
      and "query_params = (case queryStringParameters ev of None \<Rightarrow> [] | Some q \<Rightarrow> q)"
  shows "(map_of query_params ''date'' = None \<longrightarrow>
            lambda_handler (mem_env P) ev m = (response 200 (PList (map PDict (items m))), m))
       \<and> (\<forall>d. map_of query_params ''date'' = Some d \<and> d \<noteq> [] \<longrightarrow>
            lambda_handler (mem_env P) ev m
              = (response 200
                   (PList (map PDict
                      (filter (\<lambda>it. map_of it ''date'' = Some (PStr d)) (items m)))), m))
       \<and> (map_of query_params ''date'' = Some [] \<longrightarrow>
            lambda_handler (mem_env P) ev m = (response 400 (message msg_date_required), m))"
proof (intro conjI allI impI)
  assume "map_of query_params ''date'' = None"
  with assms show "lambda_handler (mem_env P) ev m = (response 200 (PList (map PDict (items m))), m)"
    by (simp add: lambda_handler_def dispatch_def Let_def mem_scan_all)
next
  fix d assume h: "map_of query_params ''date'' = Some d \<and> d \<noteq> []"
  then have "query_params \<noteq> []" by auto
  with h have "get_tasks_by_date (mem_env P) query_params m
      = (Inr (response 200 (PList (map PDict
                      (filter (\<lambda>it. map_of it ''date'' = Some (PStr d)) (items m))))), m)"
    by (simp add: get_tasks_by_date_def mem_scan_date)
  with assms h show "lambda_handler (mem_env P) ev m
              = (response 200
                   (PList (map PDict
                      (filter (\<lambda>it. map_of it ''date'' = Some (PStr d)) (items m)))), m)"
    by (simp add: lambda_handler_def dispatch_def Let_def)
next
  assume h: "map_of query_params ''date'' = Some []"
  then have "query_params \<noteq> []" by auto
  with h have "get_tasks_by_date (mem_env P) query_params m
      = (Inr (response 400 (message msg_date_required)), m)"
    by (simp add: get_tasks_by_date_def)
  with assms h show "lambda_handler (mem_env P) ev m = (response 400 (message msg_date_required), m)"
    by (simp add: lambda_handler_def dispatch_def Let_def)
qed

theorem list_tasks_spec_witness:
  "lambda_handler (mem_env [])
     \<lparr>routeKey = Some ''GET /tasks'', pathParameters = None,
      queryStringParameters = Some [(''date'', ''2025-12-04'')], event_body = None\<rparr>
     \<lparr>items = [[(''id'', PStr ''a''), (''date'', PStr ''2025-12-04'')],
               [(''id'', PStr ''b''), (''date'', PStr ''2025-12-05'')]], minted = 0\<rparr>
   = (response 200 (PList [PDict [(''id'', PStr ''a''), (''date'', PStr ''2025-12-04'')]]),
      \<lparr>items = [[(''id'', PStr ''a''), (''date'', PStr ''2025-12-04'')],
               [(''id'', PStr ''b''), (''date'', PStr ''2025-12-05'')]], minted = 0\<rparr>)
   \<and> lambda_handler (mem_env [])
     \<lparr>routeKey = Some ''GET /tasks'', pathParameters = None,
      queryStringParameters = Some [(''date'', [])], event_body = None\<rparr>
     \<lparr>items = [[(''id'', PStr ''a''), (''date'', PStr ''2025-12-04'')],
               [(''id'', PStr ''b''), (''date'', PStr ''2025-12-05'')]], minted = 0\<rparr>
   = (response 400 (message msg_date_required),
      \<lparr>items = [[(''id'', PStr ''a''), (''date'', PStr ''2025-12-04'')],
               [(''id'', PStr ''b''), (''date'', PStr ''2025-12-05'')]], minted = 0\<rparr>)
   \<and> lambda_handler (mem_env [])
     \<lparr>routeKey = Some ''GET /tasks'', pathParameters = None,
      queryStringParameters = None, event_body = None\<rparr>
     \<lparr>items = [[(''id'', PStr ''a''), (''date'', PStr ''2025-12-04'')],
               [(''id'', PStr ''b''), (''date'', PStr ''2025-12-05'')]], minted = 0\<rparr>
   = (response 200 (PList [PDict [(''id'', PStr ''a''), (''date'', PStr ''2025-12-04'')],
                            PDict [(''id'', PStr ''b''), (''date'', PStr ''2025-12-05'')]]),
      \<lparr>items = [[(''id'', PStr ''a''), (''date'', PStr ''2025-12-04'')],
               [(''id'', PStr ''b''), (''date'', PStr ''2025-12-05'')]], minted = 0\<rparr>)"
proof -
  let ?m = "\<lparr>items = [[(''id'', PStr ''a''), (''date'', PStr ''2025-12-04'')],
               [(''id'', PStr ''b''), (''date'', PStr ''2025-12-05'')]], minted = 0\<rparr>"
  let ?ev = "\<lambda>q. \<lparr>routeKey = Some ''GET /tasks'', pathParameters = None,
      queryStringParameters = q, event_body = None\<rparr>"
  have r: "\<And>q. routeKey (?ev q) = Some ''GET /tasks''" by simp
  have q1: "[(''date'', ''2025-12-04'')]
     = (case queryStringParameters (?ev (Some [(''date'', ''2025-12-04'')])) of None \<Rightarrow> [] | Some q \<Rightarrow> q)"
    by simp
  have q2: "[(''date'', [])]
     = (case queryStringParameters (?ev (Some [(''date'', [])])) of None \<Rightarrow> [] | Some q \<Rightarrow> q)"
    by simp
  have q3: "[] = (case queryStringParameters (?ev None) of None \<Rightarrow> [] | Some q \<Rightarrow> q)"
    by simp
  from list_tasks_spec [OF r q1, where P = "[]" and m = ?m, THEN conjunct2, THEN conjunct1]
  have a: "lambda_handler (mem_env []) (?ev (Some [(''date'', ''2025-12-04'')])) ?m
     = (response 200 (PList [PDict [(''id'', PStr ''a''), (''date'', PStr ''2025-12-04'')]]), ?m)"
    by simp
  from list_tasks_spec [OF r q2, where P = "[]" and m = ?m, THEN conjunct2, THEN conjunct2]
  have b: "lambda_handler (mem_env []) (?ev (Some [(''date'', [])])) ?m
     = (response 400 (message msg_date_required), ?m)"
    by simp
  from list_tasks_spec [OF r q3, where P = "[]" and m = ?m, THEN conjunct1]
  have c: "lambda_handler (mem_env []) (?ev None) ?m
     = (response 200 (PList [PDict [(''id'', PStr ''a''), (''date'', PStr ''2025-12-04'')],
                            PDict [(''id'', PStr ''b''), (''date'', PStr ''2025-12-05'')]]), ?m)"
    by simp
  from a b c show ?thesis by (intro conjI)
qed

section \<open>Properties of \<^verbatim>\<open>update_task\<close>\<close>

lemma map_of_dict_set: "map_of (dict_set k v kvs) = (map_of kvs)(k \<mapsto> v)"
  by (induction kvs) (auto simp: fun_eq_iff)

lemma parse_set_t: "parse_set ''SET title = :t'' = Some [(''title'', '':t'')]"
  by code_simp

lemma parse_set_d: "parse_set ''SET description = :d'' = Some [(''description'', '':d'')]"
  by code_simp

lemma parse_set_dt: "parse_set ''SET date = :dt'' = Some [(''date'', '':dt'')]"
  by code_simp

lemma parse_set_t_d:
  "parse_set ''SET title = :t, description = :d'' = Some [(''title'', '':t''), (''description'', '':d'')]"
  by code_simp

lemma parse_set_t_dt:
  "parse_set ''SET title = :t, date = :dt'' = Some [(''title'', '':t''), (''date'', '':dt'')]"
  by code_simp

lemma parse_set_d_dt:
  "parse_set ''SET description = :d, date = :dt'' = Some [(''description'', '':d''), (''date'', '':dt'')]"
  by code_simp

lemma parse_set_t_d_dt:
  "parse_set ''SET title = :t, description = :d, date = :dt''
     = Some [(''title'', '':t''), (''description'', '':d''), (''date'', '':dt'')]"
  by code_simp

lemmas parse_set_exprs = parse_set_t parse_set_d parse_set_dt parse_set_t_d parse_set_t_dt
  parse_set_d_dt parse_set_t_d_dt

lemma update_fields_dict:
  "update_fields (PDict kvs) =
     Inr ((case map_of kvs ''title'' of None \<Rightarrow> [] | Some v \<Rightarrow> [''title = :t''])
            @ (case map_of kvs ''description'' of None \<Rightarrow> [] | Some v \<Rightarrow> [''description = :d''])
            @ (case map_of kvs ''date'' of None \<Rightarrow> [] | Some v \<Rightarrow> [''date = :dt'']),
          (case map_of kvs ''title'' of None \<Rightarrow> [] | Some v \<Rightarrow> [('':t'', v)])
            @ (case map_of kvs ''description'' of None \<Rightarrow> [] | Some v \<Rightarrow> [('':d'', v)])
            @ (case map_of kvs ''date'' of None \<Rightarrow> [] | Some v \<Rightarrow> [('':dt'', v)]))"
  by (simp add: update_fields_def add_field_def split: option.splits)

lemma mem_update_item_fields:
  assumes "find (has_id k) (items m) = Some it"
      and "update_fields (PDict kvs) = Inr (parts, vals)"
      and "parts \<noteq> []"
  shows "mem_update_item k (''SET '' @ join '', '' parts) vals m
           = (Inr (Some (fold (\<lambda>(a, v). dict_set a v) (supplied kvs) it)),
              m\<lparr>items := map (\<lambda>x. if has_id k x then fold (\<lambda>(a, v). dict_set a v) (supplied kvs) it else x)
                              (items m)\<rparr>)"
  using assms
  by (cases "map_of kvs ''title''"; cases "map_of kvs ''description''"; cases "map_of kvs ''date''")
     (auto simp: update_fields_dict mem_update_item_def parse_set_exprs bind_values_def supplied_def
             Let_def cong: if_cong)

lemma map_of_supplied:
  "map_of (fold (\<lambda>(a, v). dict_set a v) (supplied kvs) it) a
     = (if (a = ''title'' \<or> a = ''description'' \<or> a = ''date'') \<and> map_of kvs a \<noteq> None
        then map_of kvs a else map_of it a)"
  by (cases "map_of kvs ''title''"; cases "map_of kvs ''description''"; cases "map_of kvs ''date''")
     (auto simp: supplied_def map_of_dict_set)

text \<open>
  Claim C2. For a body that is a JSON object, the update expression and its values hold
  exactly the fields among \<^verbatim>\<open>title\<close>, \<^verbatim>\<open>description\<close> and \<^verbatim>\<open>date\<close> that are keys of
  the body, in this order, each with the value the body gives it, whatever its truth
  value (an empty string is applied like any other value). On the reference store, when
  an item has the id and a field is supplied, \<^verbatim>\<open>update_task\<close> returns 200 with the new
  item, which takes the place of the old one: its supplied fields have the body's values
  and every other attribute is as before, and no other item changes.
\<close>

theorem update_task_fields:
  "update_fields (PDict kvs) =
     Inr ((case map_of kvs ''title'' of None \<Rightarrow> [] | Some v \<Rightarrow> [''title = :t''])
            @ (case map_of kvs ''description'' of None \<Rightarrow> [] | Some v \<Rightarrow> [''description = :d''])
            @ (case map_of kvs ''date'' of None \<Rightarrow> [] | Some v \<Rightarrow> [''date = :dt'']),
          (case map_of kvs ''title'' of None \<Rightarrow> [] | Some v \<Rightarrow> [('':t'', v)])
            @ (case map_of kvs ''description'' of None \<Rightarrow> [] | Some v \<Rightarrow> [('':d'', v)])
            @ (case map_of kvs ''date'' of None \<Rightarrow> [] | Some v \<Rightarrow> [('':dt'', v)]))
   \<and> (\<forall>it. find (has_id task_id) (items m) = Some it
          \<and> (map_of kvs ''title'' \<noteq> None \<or> map_of kvs ''description'' \<noteq> None
               \<or> map_of kvs ''date'' \<noteq> None) \<longrightarrow>
        (\<exists>it'. update_task (mem_env P) task_id (PDict kvs) m
                  = (Inr (response 200 (PDict it')),
                     m\<lparr>items := map (\<lambda>x. if has_id task_id x then it' else x) (items m)\<rparr>)
             \<and> (\<forall>a. map_of it' a
                      = (if (a = ''title'' \<or> a = ''description'' \<or> a = ''date'')
                            \<and> map_of kvs a \<noteq> None
                         then map_of kvs a else map_of it a))))"
proof (intro conjI allI impI)
  show "update_fields (PDict kvs) =
     Inr ((case map_of kvs ''title'' of None \<Rightarrow> [] | Some v \<Rightarrow> [''title = :t''])
            @ (case map_of kvs ''description'' of None \<Rightarrow> [] | Some v \<Rightarrow> [''description = :d''])
            @ (case map_of kvs ''date'' of None \<Rightarrow> [] | Some v \<Rightarrow> [''date = :dt'']),
          (case map_of kvs ''title'' of None \<Rightarrow> [] | Some v \<Rightarrow> [('':t'', v)])
            @ (case map_of kvs ''description'' of None \<Rightarrow> [] | Some v \<Rightarrow> [('':d'', v)])
            @ (case map_of kvs ''date'' of None \<Rightarrow> [] | Some v \<Rightarrow> [('':dt'', v)]))"
    by (rule update_fields_dict)
next
  fix it
  assume h: "find (has_id task_id) (items m) = Some it
          \<and> (map_of kvs ''title'' \<noteq> None \<or> map_of kvs ''description'' \<noteq> None
               \<or> map_of kvs ''date'' \<noteq> None)"
  obtain parts vals where pv: "update_fields (PDict kvs) = Inr (parts, vals)"
    by (simp add: update_fields_dict)
  with h have ne: "parts \<noteq> []"
    by (auto simp: update_fields_dict)
  let ?it' = "fold (\<lambda>(a, v). dict_set a v) (supplied kvs) it"
  from mem_update_item_fields [OF conjunct1 [OF h] pv ne]
  have "update_item (mem_env P) task_id (''SET '' @ join '', '' parts) vals m
          = (Inr (Some ?it'),
             m\<lparr>items := map (\<lambda>x. if has_id task_id x then ?it' else x) (items m)\<rparr>)"
    by (simp add: mem_env_def)
  with pv ne
  have "update_task (mem_env P) task_id (PDict kvs) m
          = (Inr (response 200 (PDict ?it')),
             m\<lparr>items := map (\<lambda>x. if has_id task_id x then ?it' else x) (items m)\<rparr>)"
    by (simp add: update_task_def)
  moreover have "\<forall>a. map_of ?it' a
                      = (if (a = ''title'' \<or> a = ''description'' \<or> a = ''date'')
                            \<and> map_of kvs a \<noteq> None
                         then map_of kvs a else map_of it a)"
    by (simp add: map_of_supplied)
  ultimately
  show "\<exists>it'. update_task (mem_env P) task_id (PDict kvs) m
                  = (Inr (response 200 (PDict it')),
                     m\<lparr>items := map (\<lambda>x. if has_id task_id x then it' else x) (items m)\<rparr>)
             \<and> (\<forall>a. map_of it' a
                      = (if (a = ''title'' \<or> a = ''description'' \<or> a = ''date'')
                            \<and> map_of kvs a \<noteq> None
                         then map_of kvs a else map_of it a))"
    by (intro exI conjI)
qed

theorem update_task_fields_witness:
  "update_fields (PDict [(''title'', PStr []), (''done'', PBool True)])
     = Inr ([''title = :t''], [('':t'', PStr [])])
   \<and> (\<exists>it'. update_task (mem_env []) ''a'' (PDict [(''title'', PStr ''X'')])
               \<lparr>items = [[(''id'', PStr ''a''), (''title'', PStr ''T''),
                          (''description'', PStr ''D''), (''date'', PStr ''2025-12-04'')]],
                minted = 0\<rparr>
             = (Inr (response 200 (PDict it')), \<lparr>items = [it'], minted = 0\<rparr>)
          \<and> map_of it' ''id'' = Some (PStr ''a'')
          \<and> map_of it' ''title'' = Some (PStr ''X'')
          \<and> map_of it' ''description'' = Some (PStr ''D'')
          \<and> map_of it' ''date'' = Some (PStr ''2025-12-04''))"
proof -
  let ?it = "[(''id'', PStr ''a''), (''title'', PStr ''T''),
              (''description'', PStr ''D''), (''date'', PStr ''2025-12-04'')]"
  let ?m = "\<lparr>items = [?it], minted = 0\<rparr>"
  from update_task_fields [where kvs = "[(''title'', PStr []), (''done'', PBool True)]",
      THEN conjunct1]
  have a: "update_fields (PDict [(''title'', PStr []), (''done'', PBool True)])
     = Inr ([''title = :t''], [('':t'', PStr [])])"
    by simp
  have f: "find (has_id ''a'') (items ?m) = Some ?it
          \<and> (map_of [(''title'', PStr ''X'')] ''title'' \<noteq> None
               \<or> map_of [(''title'', PStr ''X'')] ''description'' \<noteq> None
               \<or> map_of [(''title'', PStr ''X'')] ''date'' \<noteq> None)"
    by (simp add: has_id_def)
  from update_task_fields [where kvs = "[(''title'', PStr ''X'')]" and m = ?m
      and task_id = "''a''" and P = "[]", THEN conjunct2, rule_format, OF f]
  obtain it' where u: "update_task (mem_env []) ''a'' (PDict [(''title'', PStr ''X'')]) ?m
                  = (Inr (response 200 (PDict it')),
                     ?m\<lparr>items := map (\<lambda>x. if has_id ''a'' x then it' else x) (items ?m)\<rparr>)"
     and v: "\<And>a. map_of it' a
                      = (if (a = ''title'' \<or> a = ''description'' \<or> a = ''date'')
                            \<and> map_of [(''title'', PStr ''X'')] a \<noteq> None
                         then map_of [(''title'', PStr ''X'')] a else map_of ?it a)"
    by auto
  from u have u': "update_task (mem_env []) ''a'' (PDict [(''title'', PStr ''X'')]) ?m
                  = (Inr (response 200 (PDict it')), \<lparr>items = [it'], minted = 0\<rparr>)"
    by (simp add: has_id_def)
  have "map_of it' ''id'' = Some (PStr ''a'')"
       "map_of it' ''title'' = Some (PStr ''X'')"
       "map_of it' ''description'' = Some (PStr ''D'')"
       "map_of it' ''date'' = Some (PStr ''2025-12-04'')"
    by (simp_all add: v)
  with u' have "\<exists>it'. update_task (mem_env []) ''a'' (PDict [(''title'', PStr ''X'')]) ?m
             = (Inr (response 200 (PDict it')), \<lparr>items = [it'], minted = 0\<rparr>)
          \<and> map_of it' ''id'' = Some (PStr ''a'')
          \<and> map_of it' ''title'' = Some (PStr ''X'')
          \<and> map_of it' ''description'' = Some (PStr ''D'')
          \<and> map_of it' ''date'' = Some (PStr ''2025-12-04'')"
    by (intro exI conjI)
  with a show ?thesis by (rule conjI)
qed



section \<open>Properties of the router\<close>

text \<open>
  Claim C8. When the body text is not JSON (\<^verbatim>\<open>json.loads\<close> raises), the body is the empty
  dictionary and the handler returns what it returns for the same event without a body.
  So a \<^verbatim>\<open>PUT\<close> with an id returns the 400 of an update without fields, and a \<^verbatim>\<open>POST\<close>
  returns the 400 of a creation without the required fields.
\<close>

theorem malformed_body_spec:
  assumes "event_body ev = Some b" and "loads E b = None"
  shows "parse_body E ev = PDict []
   \<and> lambda_handler E ev s = lambda_handler E (ev\<lparr>event_body := None\<rparr>) s
   \<and> (\<forall>pp k. routeKey ev = Some ''PUT /tasks/{id}'' \<and> pathParameters ev = Some pp
         \<and> map_of pp ''id'' = Some k \<and> k \<noteq> [] \<longrightarrow>
         lambda_handler E ev s = (response 400 (message msg_nothing), s))
   \<and> (routeKey ev = Some ''POST /tasks'' \<longrightarrow>
         lambda_handler E ev s = (response 400 (message msg_required), snd (uuid4 E s)))"
proof (intro conjI allI impI)
  from assms show p: "parse_body E ev = PDict []"
    by (simp add: parse_body_def)
  have q: "parse_body E (ev\<lparr>event_body := None\<rparr>) = PDict []"
    by (simp add: parse_body_def)
  from p q have "dispatch E ev s = dispatch E (ev\<lparr>event_body := None\<rparr>) s"
    by (simp add: dispatch_def)
  then show "lambda_handler E ev s = lambda_handler E (ev\<lparr>event_body := None\<rparr>) s"
    by (simp add: lambda_handler_def)
  {
    fix pp k
    assume "routeKey ev = Some ''PUT /tasks/{id}'' \<and> pathParameters ev = Some pp
         \<and> map_of pp ''id'' = Some k \<and> k \<noteq> []"
    with p have "dispatch E ev s = (Inr (response 400 (message msg_nothing)), s)"
      by (simp add: dispatch_def with_id_def update_task_def update_fields_dict)
    then show "lambda_handler E ev s = (response 400 (message msg_nothing), s)"
      by (simp add: lambda_handler_def)
  }
  {
    assume "routeKey ev = Some ''POST /tasks''"
    with p have "dispatch E ev s = (Inr (response 400 (message msg_required)), snd (uuid4 E s))"
      by (simp add: dispatch_def create_task_def dict_get_def split: prod.splits)
    then show "lambda_handler E ev s = (response 400 (message msg_required), snd (uuid4 E s))"
      by (simp add: lambda_handler_def)
  }
qed

theorem malformed_body_spec_witness:
  "lambda_handler (mem_env [])
     \<lparr>routeKey = Some ''PUT /tasks/{id}'', pathParameters = Some [(''id'', ''a'')],
      queryStringParameters = None, event_body = Some ''{title''\<rparr>
     \<lparr>items = [], minted = 0\<rparr>
   = (response 400 (message msg_nothing), \<lparr>items = [], minted = 0\<rparr>)
   \<and> lambda_handler (mem_env [])
     \<lparr>routeKey = Some ''POST /tasks'', pathParameters = None,
      queryStringParameters = None, event_body = Some ''{title''\<rparr>
     \<lparr>items = [], minted = 0\<rparr>
   = (response 400 (message msg_required), \<lparr>items = [], minted = 1\<rparr>)"
proof -
  let ?m = "\<lparr>items = [], minted = 0\<rparr>"
  let ?put = "\<lparr>routeKey = Some ''PUT /tasks/{id}'', pathParameters = Some [(''id'', ''a'')],
      queryStringParameters = None, event_body = Some ''{title''\<rparr>"
  let ?post = "\<lparr>routeKey = Some ''POST /tasks'', pathParameters = None,
      queryStringParameters = None, event_body = Some ''{title''\<rparr>"
  have l: "loads (mem_env []) ''{title'' = None"
    by (simp add: mem_env_def)
  have b1: "event_body ?put = Some ''{title''" and b2: "event_body ?post = Some ''{title''"
    by simp_all
  have k: "routeKey ?put = Some ''PUT /tasks/{id}'' \<and> pathParameters ?put = Some [(''id'', ''a'')]
         \<and> map_of [(''id'', ''a'')] ''id'' = Some ''a'' \<and> ''a'' \<noteq> []"
    by simp
  from malformed_body_spec [OF b1 l, where s = ?m, THEN conjunct2, THEN conjunct2,
      THEN conjunct1, rule_format, OF k]
  have a: "lambda_handler (mem_env []) ?put ?m = (response 400 (message msg_nothing), ?m)" .
  have u: "snd (uuid4 (mem_env []) ?m) = \<lparr>items = [], minted = 1\<rparr>"
    by (simp add: mem_env_def mem_uuid4_def)
  from malformed_body_spec [OF b2 l, where s = ?m, THEN conjunct2, THEN conjunct2,
      THEN conjunct2] u
  have b: "lambda_handler (mem_env []) ?post ?m
             = (response 400 (message msg_required), \<lparr>items = [], minted = 1\<rparr>)"
    by simp
  from a b show ?thesis by (rule conjI)
qed

lemma create_task_response:
  "create_task E b s = (Inr r, s') \<Longrightarrow> \<exists>c v. r = response c v"
  by (auto simp: create_task_def Let_def split: prod.splits sum.splits if_splits)

lemma get_task_response:
  "get_task E k s = (Inr r, s') \<Longrightarrow> \<exists>c v. r = response c v"
  by (auto simp: get_task_def split: prod.splits sum.splits option.splits if_splits)

lemma update_task_response:
  "update_task E k b s = (Inr r, s') \<Longrightarrow> \<exists>c v. r = response c v"
  by (auto simp: update_task_def Let_def split: prod.splits sum.splits if_splits)

lemma delete_task_response:
  "delete_task E k s = (Inr r, s') \<Longrightarrow> \<exists>c v. r = response c v"
  by (auto simp: delete_task_def split: prod.splits sum.splits option.splits)

lemma get_tasks_by_date_response:
  "get_tasks_by_date E q s = (Inr r, s') \<Longrightarrow> \<exists>c v. r = response c v"
  by (auto simp: get_tasks_by_date_def Let_def split: prod.splits sum.splits option.splits if_splits)

lemma with_id_response:
  assumes "\<And>k r s'. operation k s = (Inr r, s') \<Longrightarrow> \<exists>c v. r = response c v"
      and "with_id pp operation s = (Inr r, s')"
  shows "\<exists>c v. r = response c v"
  using assms by (auto simp: with_id_def split: option.splits if_splits)

lemma dispatch_response:
  assumes "dispatch E ev s = (Inr r, s')"
  shows "\<exists>c v. r = response c v"
proof -
  consider (post) "routeKey ev = Some ''POST /tasks''"
    | (get) "routeKey ev = Some ''GET /tasks/{id}''"
    | (put) "routeKey ev = Some ''PUT /tasks/{id}''"
    | (del) "routeKey ev = Some ''DELETE /tasks/{id}''"
    | (list) "routeKey ev = Some ''GET /tasks''"
    | (other) "routeKey ev \<noteq> Some ''POST /tasks''" "routeKey ev \<noteq> Some ''GET /tasks/{id}''"
        "routeKey ev \<noteq> Some ''PUT /tasks/{id}''" "routeKey ev \<noteq> Some ''DELETE /tasks/{id}''"
        "routeKey ev \<noteq> Some ''GET /tasks''"
    by blast
  then show ?thesis
  proof cases
    case post
    with assms show ?thesis
      by (auto simp: dispatch_def Let_def dest: create_task_response)
  next
    case get
    with assms show ?thesis
      by (auto simp: dispatch_def Let_def elim!: with_id_response [rotated] dest: get_task_response)
  next
    case put
    with assms show ?thesis
      by (auto simp: dispatch_def Let_def elim!: with_id_response [rotated] dest: update_task_response)
  next
    case del
    with assms show ?thesis
      by (auto simp: dispatch_def Let_def elim!: with_id_response [rotated] dest: delete_task_response)
  next
    case list
    with assms show ?thesis
      by (auto simp: dispatch_def Let_def dest: get_tasks_by_date_response
               split: if_splits prod.splits sum.splits)
  next
    case other
    with assms show ?thesis
      by (auto simp: dispatch_def Let_def)
  qed
qed

text \<open>
  Claim C9. For every event the handler returns an envelope built by \<^verbatim>\<open>response\<close>, with
  the JSON content type and the wildcard origin header. A route key that is none of the
  five returns 404 with the route message; a route with an id whose path parameter
  \<^verbatim>\<open>id\<close> is missing or empty returns 400; and an exception \<open>e\<close> that leaves the \<^verbatim>\<open>try\<close>
  block gives 500 with the text of \<open>e\<close> after \<^verbatim>\<open>Erro interno: \<close>.
\<close>

theorem lambda_handler_spec:
  "(\<exists>status_code v. fst (lambda_handler E ev s) = response status_code v)
   \<and> headers (fst (lambda_handler E ev s))
       = [(''Content-Type'', ''application/json''), (''Access-Control-Allow-Origin'', ''*'')]
   \<and> (routeKey ev \<noteq> Some ''POST /tasks'' \<and> routeKey ev \<noteq> Some ''GET /tasks/{id}''
        \<and> routeKey ev \<noteq> Some ''PUT /tasks/{id}'' \<and> routeKey ev \<noteq> Some ''DELETE /tasks/{id}''
        \<and> routeKey ev \<noteq> Some ''GET /tasks'' \<longrightarrow>
        lambda_handler E ev s = (response 404 (message msg_route), s))
   \<and> ((routeKey ev = Some ''GET /tasks/{id}'' \<or> routeKey ev = Some ''PUT /tasks/{id}''
         \<or> routeKey ev = Some ''DELETE /tasks/{id}'')
        \<and> (map_of (case pathParameters ev of None \<Rightarrow> [] | Some p \<Rightarrow> p) ''id'' = None
             \<or> map_of (case pathParameters ev of None \<Rightarrow> [] | Some p \<Rightarrow> p) ''id'' = Some []) \<longrightarrow>
        lambda_handler E ev s = (response 400 (message msg_id_required), s))
   \<and> (\<forall>e s1. dispatch E ev s = (Inl e, s1) \<longrightarrow>
        lambda_handler E ev s = (response 500 (message (''Erro interno: '' @ str_exn e)), s1))"
proof (intro conjI allI impI)
  show r: "\<exists>status_code v. fst (lambda_handler E ev s) = response status_code v"
  proof (cases "dispatch E ev s")
    case (Pair x s1)
    then show ?thesis
    proof (cases x)
      case (Inl e)
      with Pair show ?thesis
        by (auto simp: lambda_handler_def)
    next
      case (Inr r)
      with Pair dispatch_response [of E ev s r s1] show ?thesis
        by (auto simp: lambda_handler_def)
    qed
  qed
  then show "headers (fst (lambda_handler E ev s))
       = [(''Content-Type'', ''application/json''), (''Access-Control-Allow-Origin'', ''*'')]"
    by (auto simp: response_def)
next
  assume "routeKey ev \<noteq> Some ''POST /tasks'' \<and> routeKey ev \<noteq> Some ''GET /tasks/{id}''
        \<and> routeKey ev \<noteq> Some ''PUT /tasks/{id}'' \<and> routeKey ev \<noteq> Some ''DELETE /tasks/{id}''
        \<and> routeKey ev \<noteq> Some ''GET /tasks''"
  then show "lambda_handler E ev s = (response 404 (message msg_route), s)"
    by (simp add: lambda_handler_def dispatch_def Let_def)
next
  assume h: "(routeKey ev = Some ''GET /tasks/{id}'' \<or> routeKey ev = Some ''PUT /tasks/{id}''
         \<or> routeKey ev = Some ''DELETE /tasks/{id}'')
        \<and> (map_of (case pathParameters ev of None \<Rightarrow> [] | Some p \<Rightarrow> p) ''id'' = None
             \<or> map_of (case pathParameters ev of None \<Rightarrow> [] | Some p \<Rightarrow> p) ''id'' = Some [])"
  then have "\<And>operation. with_id (case pathParameters ev of None \<Rightarrow> [] | Some p \<Rightarrow> p) operation s
      = (Inr (response 400 (message msg_id_required)), s)"
    by (auto simp: with_id_def)
  with h have "dispatch E ev s = (Inr (response 400 (message msg_id_required)), s)"
    by (auto simp: dispatch_def Let_def)
  then show "lambda_handler E ev s = (response 400 (message msg_id_required), s)"
    by (simp add: lambda_handler_def)
next
  fix e s1
  assume "dispatch E ev s = (Inl e, s1)"
  then show "lambda_handler E ev s = (response 500 (message (''Erro interno: '' @ str_exn e)), s1)"
    by (simp add: lambda_handler_def)
qed

theorem lambda_handler_spec_witness:
  "lambda_handler (mem_env [(''[]'', PList [])])
     \<lparr>routeKey = Some ''POST /tasks'', pathParameters = None,
      queryStringParameters = None, event_body = Some ''[]''\<rparr>
     \<lparr>items = [], minted = 0\<rparr>
   = (response 500 (message (''Erro interno: '' @ quoted ''list''
                                @ '' object has no attribute '' @ quoted ''get'')),
      \<lparr>items = [], minted = 1\<rparr>)
   \<and> lambda_handler (mem_env [])
     \<lparr>routeKey = Some ''PATCH /tasks/{id}'', pathParameters = Some [(''id'', ''a'')],
      queryStringParameters = None, event_body = None\<rparr>
     \<lparr>items = [], minted = 0\<rparr>
   = (response 404 (message msg_route), \<lparr>items = [], minted = 0\<rparr>)
   \<and> lambda_handler (mem_env [])
     \<lparr>routeKey = Some ''GET /tasks/{id}'', pathParameters = None,
      queryStringParameters = None, event_body = None\<rparr>
     \<lparr>items = [], minted = 0\<rparr>
   = (response 400 (message msg_id_required), \<lparr>items = [], minted = 0\<rparr>)"
proof -
  let ?m = "\<lparr>items = [], minted = 0\<rparr>"
  let ?E = "mem_env [(''[]'', PList [])]"
  let ?post = "\<lparr>routeKey = Some ''POST /tasks'', pathParameters = None,
      queryStringParameters = None, event_body = Some ''[]''\<rparr>"
  let ?patch = "\<lparr>routeKey = Some ''PATCH /tasks/{id}'', pathParameters = Some [(''id'', ''a'')],
      queryStringParameters = None, event_body = None\<rparr>"
  let ?get = "\<lparr>routeKey = Some ''GET /tasks/{id}'', pathParameters = None,
      queryStringParameters = None, event_body = None\<rparr>"
  have d: "dispatch ?E ?post ?m
     = (Inl (AttributeError (quoted ''list'' @ '' object has no attribute '' @ quoted ''get'')),
        \<lparr>items = [], minted = 1\<rparr>)"
    by (simp add: dispatch_def parse_body_def create_task_def mem_env_def mem_uuid4_def)
  from lambda_handler_spec [where E = ?E and ev = ?post and s = ?m,
      THEN conjunct2, THEN conjunct2, THEN conjunct2, THEN conjunct2, rule_format, OF d]
  have a: "lambda_handler ?E ?post ?m
     = (response 500 (message (''Erro interno: '' @ quoted ''list''
                                @ '' object has no attribute '' @ quoted ''get'')),
        \<lparr>items = [], minted = 1\<rparr>)"
    by simp
  from lambda_handler_spec [where E = "mem_env []" and ev = ?patch and s = ?m,
      THEN conjunct2, THEN conjunct2, THEN conjunct1]
  have b: "lambda_handler (mem_env []) ?patch ?m = (response 404 (message msg_route), ?m)"
    by simp
  from lambda_handler_spec [where E = "mem_env []" and ev = ?get and s = ?m,
      THEN conjunct2, THEN conjunct2, THEN conjunct2, THEN conjunct1]
  have c: "lambda_handler (mem_env []) ?get ?m = (response 400 (message msg_id_required), ?m)"
    by simp
  from a b c show ?thesis by (intro conjI)
qed

end
